theory Spec2Isabelle
  imports Complex_Main "HOL-Library.Word"
begin

section \<open>The audio signal graph of the player\<close>

text \<open>
  The player component keeps its Web Audio nodes in refs and wires them with
  \<open>connect\<close> and \<open>disconnect\<close>.  A node is named by the ref that holds it; the ten
  equaliser filters are the elements of \<open>eqNodesRef.current\<close>.
\<close>

datatype node =
    SourceN
  | EqN nat
  | AnalyserN
  | SplitterN
  | MergerN
  | InvertGainN
  | DestinationN

text \<open>
  A connection \<open>(src, output, dst, input)\<close> is what \<open>src.connect(dst, output, input)\<close>
  creates; both indices default to 0.  Connecting the same output to the same input a
  second time changes nothing, and \<open>n.disconnect()\<close> removes every connection that
  leaves \<open>n\<close>.
\<close>

type_synonym connection = "node \<times> nat \<times> node \<times> nat"

definition connect :: "node \<Rightarrow> nat \<Rightarrow> node \<Rightarrow> nat \<Rightarrow> connection list \<Rightarrow> connection list" where
  "connect src out dst inp cs =
     (if (src, out, dst, inp) \<in> set cs then cs else cs @ [(src, out, dst, inp)])"

definition disconnect :: "node \<Rightarrow> connection list \<Rightarrow> connection list" where
  "disconnect n cs = filter (\<lambda>c. fst c \<noteq> n) cs"

text \<open>
  \<open>let previousNode = first; chain.forEach(node => { previousNode.connect(node);
  previousNode = node; })\<close>: the result is the last node and the new connections.
\<close>

fun connect_chain :: "node \<Rightarrow> node list \<Rightarrow> connection list \<Rightarrow> node \<times> connection list" where
  "connect_chain previousNode [] cs = (previousNode, cs)"
| "connect_chain previousNode (n # ns) cs = connect_chain n ns (connect previousNode 0 n 0 cs)"

record EQBand =
  frequency :: real
  gain :: real

text \<open>A peaking filter stage: \<open>frequency.value\<close>, \<open>Q.value\<close> and \<open>gain.value\<close>.\<close>

record BiquadFilter =
  filter_frequency :: real
  filter_Q :: real
  filter_gain :: real

datatype context_state = Running | Suspended

definition EQ_FREQUENCIES :: "real list" where
  "EQ_FREQUENCIES = [60, 170, 310, 600, 1000, 3000, 6000, 12000, 14000, 16000]"

text \<open>
  The part of the component's state that the graph operations touch.  A ref that is
  \<open>null\<close> is \<open>None\<close> (or \<open>False\<close> for a node without parameters of interest);
  \<open>analyserRef\<close> holds the analyser's \<open>fftSize\<close>, \<open>invertGainRef\<close> the gain
  node's \<open>gain.value\<close>.
\<close>

record player =
  audioContextRef :: "context_state option"
  sourceNodeRef :: bool
  analyserRef :: "nat option"
  splitterRef :: bool
  mergerRef :: bool
  invertGainRef :: "real option"
  eqNodesRef :: "BiquadFilter list"
  eqBands :: "EQBand list"
  karaokeMode :: bool
  connections :: "connection list"

text \<open>
  The state a freshly mounted component has.  \<open>saved\<close> is what \<open>loadEQSettings()\<close>
  returns (the persistence module is outside the modelled sources).
\<close>

definition initial_player :: "EQBand list option \<Rightarrow> player" where
  "initial_player saved =
     \<lparr> audioContextRef = None,
       sourceNodeRef = False,
       analyserRef = None,
       splitterRef = False,
       mergerRef = False,
       invertGainRef = None,
       eqNodesRef = [],
       eqBands = (case saved of
                    Some bs \<Rightarrow> bs
                  | None \<Rightarrow> map (\<lambda>f. \<lparr> frequency = f, gain = 0 \<rparr>) EQ_FREQUENCIES),
       karaokeMode = False,
       connections = [] \<rparr>"

definition eqChain :: "player \<Rightarrow> node list" where
  "eqChain st = map EqN [0 ..< length (eqNodesRef st)]"

text \<open>
  \<open>initAudioContext\<close>.  \<open>fresh\<close> is the state in which the platform hands out a new
  audio context.
\<close>

definition initAudioContext :: "context_state \<Rightarrow> player \<Rightarrow> player" where
  "initAudioContext fresh st =
     (case audioContextRef st of
        None \<Rightarrow>
          (let bands = map (\<lambda>freq. \<lparr> filter_frequency = freq, filter_Q = 1.4, filter_gain = 0 \<rparr>)
                         EQ_FREQUENCIES;
               (previousNode, cs) =
                  connect_chain SourceN (map EqN [0 ..< length bands]) (connections st);
               cs = connect previousNode 0 AnalyserN 0 cs;
               cs = connect AnalyserN 0 DestinationN 0 cs
           in st \<lparr> audioContextRef := Some fresh,
                   sourceNodeRef := True,
                   analyserRef := Some 256,
                   splitterRef := True,
                   mergerRef := True,
                   invertGainRef := Some (- 1),
                   eqNodesRef := bands,
                   connections := cs \<rparr>)
      | Some Suspended \<Rightarrow> st \<lparr> audioContextRef := Some Running \<rparr>
      | Some Running \<Rightarrow> st)"

text \<open>\<open>Disconnect everything\<close>: the first block of \<open>toggleKaraokeMode\<close>.\<close>

definition disconnect_everything :: "player \<Rightarrow> connection list" where
  "disconnect_everything st =
     (let cs = disconnect SourceN (connections st);
          cs = fold disconnect (eqChain st) cs;
          cs = disconnect AnalyserN cs;
          cs = (if splitterRef st then disconnect SplitterN cs else cs);
          cs = (if mergerRef st then disconnect MergerN cs else cs);
          cs = (if invertGainRef st \<noteq> None then disconnect InvertGainN cs else cs)
      in cs)"

definition toggleKaraokeMode :: "player \<Rightarrow> player" where
  "toggleKaraokeMode st =
     (if audioContextRef st = None \<or> \<not> sourceNodeRef st \<or> analyserRef st = None then st
      else
        let cs = disconnect_everything st;
            newKaraokeMode = \<not> karaokeMode st
        in if newKaraokeMode \<and> splitterRef st \<and> mergerRef st \<and> invertGainRef st \<noteq> None
           then
             let (previousNode, cs) = connect_chain SourceN (eqChain st) cs;
                 cs = connect previousNode 0 SplitterN 0 cs;
                 cs = connect SplitterN 0 MergerN 0 cs;
                 cs = connect SplitterN 1 InvertGainN 0 cs;
                 cs = connect InvertGainN 0 MergerN 0 cs;
                 cs = connect SplitterN 1 MergerN 1 cs;
                 cs = connect SplitterN 0 InvertGainN 0 cs;
                 cs = connect InvertGainN 0 MergerN 1 cs;
                 cs = connect MergerN 0 AnalyserN 0 cs;
                 cs = connect AnalyserN 0 DestinationN 0 cs
             in st \<lparr> connections := cs, karaokeMode := newKaraokeMode \<rparr>
           else
             let (previousNode, cs) = connect_chain SourceN (eqChain st) cs;
                 cs = connect previousNode 0 AnalyserN 0 cs;
                 cs = connect AnalyserN 0 DestinationN 0 cs
             in st \<lparr> connections := cs, karaokeMode := newKaraokeMode \<rparr>)"

text \<open>
  The flat topology, written out: source, the ten filter stages in order, the analysis
  node, the destination.
\<close>

definition flat_topology :: "connection list" where
  "flat_topology =
     [(SourceN, 0, EqN 0, 0), (EqN 0, 0, EqN 1, 0), (EqN 1, 0, EqN 2, 0), (EqN 2, 0, EqN 3, 0),
      (EqN 3, 0, EqN 4, 0), (EqN 4, 0, EqN 5, 0), (EqN 5, 0, EqN 6, 0), (EqN 6, 0, EqN 7, 0),
      (EqN 7, 0, EqN 8, 0), (EqN 8, 0, EqN 9, 0), (EqN 9, 0, AnalyserN, 0),
      (AnalyserN, 0, DestinationN, 0)]"

subsection \<open>What the vocal-cancellation subgraph computes\<close>

text \<open>
  One sample at a time.  The stereo sample \<open>(l, r)\<close> arrives at the splitter, whose
  output \<open>k\<close> carries channel \<open>k\<close> as a mono signal.  Everything connected to one input
  of a node is summed there.  The gain node multiplies the sum at its input 0 by its gain;
  the merger's output channel \<open>k\<close> is the sum at its input \<open>k\<close>.  Only the splitter
  feeds the gain node and only the splitter and the gain node feed the merger, so these
  three definitions need no recursion over the graph.
\<close>

definition splitter_output :: "real \<times> real \<Rightarrow> nat \<Rightarrow> real" where
  "splitter_output lr k = (if k = 0 then fst lr else if k = 1 then snd lr else 0)"

definition invertGain_output :: "connection list \<Rightarrow> real \<Rightarrow> real \<times> real \<Rightarrow> real" where
  "invertGain_output cs g lr =
     g * sum_list (map (\<lambda>c. if fst c = SplitterN then splitter_output lr (fst (snd c)) else 0)
                      (filter (\<lambda>c. snd (snd c) = (InvertGainN, 0)) cs))"

definition merger_input :: "connection list \<Rightarrow> real \<Rightarrow> real \<times> real \<Rightarrow> nat \<Rightarrow> real" where
  "merger_input cs g lr k =
     sum_list (map (\<lambda>c. if fst c = SplitterN then splitter_output lr (fst (snd c))
                         else if fst c = InvertGainN then invertGain_output cs g lr
                         else 0)
                   (filter (\<lambda>c. snd (snd c) = (MergerN, k)) cs))"

text \<open>The stereo sample that leaves the merger of a player's graph.\<close>

definition karaoke_output :: "player \<Rightarrow> real \<times> real \<Rightarrow> real \<times> real" where
  "karaoke_output st lr =
     (let g = (case invertGainRef st of Some g \<Rightarrow> g | None \<Rightarrow> 0)
      in (merger_input (connections st) g lr 0, merger_input (connections st) g lr 1))"

text \<open>
  The vocal-cancellation topology that \<open>toggleKaraokeMode\<close> wires, written out in
  the order of its \<open>connect\<close> calls.
\<close>

definition karaoke_topology :: "connection list" where
  "karaoke_topology =
     [(SourceN, 0, EqN 0, 0), (EqN 0, 0, EqN 1, 0), (EqN 1, 0, EqN 2, 0), (EqN 2, 0, EqN 3, 0),
      (EqN 3, 0, EqN 4, 0), (EqN 4, 0, EqN 5, 0), (EqN 5, 0, EqN 6, 0), (EqN 6, 0, EqN 7, 0),
      (EqN 7, 0, EqN 8, 0), (EqN 8, 0, EqN 9, 0), (EqN 9, 0, SplitterN, 0),
      (SplitterN, 0, MergerN, 0), (SplitterN, 1, InvertGainN, 0), (InvertGainN, 0, MergerN, 0),
      (SplitterN, 1, MergerN, 1), (SplitterN, 0, InvertGainN, 0), (InvertGainN, 0, MergerN, 1),
      (MergerN, 0, AnalyserN, 0), (AnalyserN, 0, DestinationN, 0)]"

definition eq_nodes :: "node list" where
  "eq_nodes = [EqN 0, EqN 1, EqN 2, EqN 3, EqN 4, EqN 5, EqN 6, EqN 7, EqN 8, EqN 9]"

text \<open>Every ref is set and there are ten filter stages: the state after initialisation.\<close>

definition wired :: "player \<Rightarrow> bool" where
  "wired st =
     (audioContextRef st \<noteq> None \<and> sourceNodeRef st \<and> analyserRef st \<noteq> None \<and>
      splitterRef st \<and> mergerRef st \<and> invertGainRef st \<noteq> None \<and>
      length (eqNodesRef st) = 10)"

subsection \<open>Changing a band's gain\<close>

datatype js_error = TypeError

text \<open>
  The updater that \<open>handleEQChange\<close> passes to \<open>setEqBands\<close>:
  \<open>prev => { const next = [...prev]; next[index].gain = value; return next; }\<close>.
  Where \<open>next[index]\<close> is \<open>undefined\<close> the assignment raises a \<open>TypeError\<close>.
\<close>

definition set_band_gain :: "int \<Rightarrow> real \<Rightarrow> EQBand list \<Rightarrow> js_error + EQBand list" where
  "set_band_gain index v prev =
     (if 0 \<le> index \<and> nat index < length prev
      then Inr (prev [nat index := (prev ! nat index) \<lparr> gain := v \<rparr>])
      else Inl TypeError)"

text \<open>
  \<open>handleEQChange\<close>.  The call queues the updater and returns normally.  The first
  component is the state once the updater has run; the second records the error the
  queued updater raises, when it does, at the time the bands are rendered again: the
  call itself raises nothing, and the stored bands then stay as they were.  The live
  filter is written by the call, under the guard \<open>if (eqNodesRef.current[index])\<close>.
  The written parameter holds single-precision values inside its nominal range (up to
  about 1541 for the gain of a peaking filter); the model keeps the real that is written,
  which is the parameter's value for 20 (inside the nominal range and exact in single
  precision) and is within rounding of it for the gains from -12 to 12.
\<close>

definition handleEQChange :: "int \<Rightarrow> real \<Rightarrow> player \<Rightarrow> player \<times> js_error option" where
  "handleEQChange index v st =
     (let (bands, err) =
            (case set_band_gain index v (eqBands st) of
               Inl e \<Rightarrow> (eqBands st, Some e)
             | Inr next \<Rightarrow> (next, None));
          nodes =
            (if 0 \<le> index \<and> nat index < length (eqNodesRef st)
             then (eqNodesRef st) [nat index := (eqNodesRef st ! nat index) \<lparr> filter_gain := v \<rparr>]
             else eqNodesRef st)
      in (st \<lparr> eqBands := bands, eqNodesRef := nodes \<rparr>, err))"

text \<open>The two reads the claims speak of: the stored band gain and the live filter gain.\<close>

definition stored_gain :: "player \<Rightarrow> nat \<Rightarrow> real" where
  "stored_gain st i = gain (eqBands st ! i)"

definition live_gain :: "player \<Rightarrow> nat \<Rightarrow> real" where
  "live_gain st i = filter_gain (eqNodesRef st ! i)"

section \<open>The visualizer\<close>

datatype VisualizerMode = BARS | WAVE | CIRCLE | SPIRAL | PARTICLES | SPECTRUM | RINGS | DNA

subsection \<open>Numbers and typed arrays\<close>

text \<open>
  A number of the program is a real, or \<open>NaN\<close>, which is \<open>None\<close> here.  Reading a
  typed array past its end gives \<open>undefined\<close>, which arithmetic turns into
  \<open>NaN\<close>; so a read past the end is \<open>None\<close> as well.  Writing past the end of a
  typed array does nothing, which is what \<open>xs[i := v]\<close> does.  The rounding of the
  program's floating-point numbers is not modelled.
\<close>

type_synonym num = "real option"

definition typed_get :: "num list \<Rightarrow> nat \<Rightarrow> num" where
  "typed_get a i = (if i < length a then a ! i else None)"

definition num_lift2 :: "(real \<Rightarrow> real \<Rightarrow> real) \<Rightarrow> num \<Rightarrow> num \<Rightarrow> num" where
  "num_lift2 f a b =
     (case a of None \<Rightarrow> None | Some x \<Rightarrow> (case b of None \<Rightarrow> None | Some y \<Rightarrow> Some (f x y)))"

definition num_add :: "num \<Rightarrow> num \<Rightarrow> num" where
  "num_add = num_lift2 (+)"

text \<open>\<open>let sum = 0; for (k of indices) sum += a[k];\<close>\<close>

definition sum_reads :: "num list \<Rightarrow> nat list \<Rightarrow> num" where
  "sum_reads a indices = fold (\<lambda>k s. num_add s (typed_get a k)) indices (Some 0)"

text \<open>\<open>a[k] || 0\<close>: a missing element, \<open>NaN\<close> and 0 all give 0.\<close>

definition or_zero :: "num \<Rightarrow> real" where
  "or_zero v = (case v of None \<Rightarrow> 0 | Some x \<Rightarrow> x)"

text \<open>The remainder \<open>x % m\<close> on numbers: the quotient is truncated towards zero.\<close>

definition js_rem :: "real \<Rightarrow> real \<Rightarrow> real" where
  "js_rem x m = x - m * of_int (if 0 \<le> x / m then \<lfloor>x / m\<rfloor> else \<lceil>x / m\<rceil>)"

text \<open>A magnitude the analyser can deliver, held in the smoothing buffer.\<close>

definition in_byte_range :: "num \<Rightarrow> bool" where
  "in_byte_range v = (case v of None \<Rightarrow> False | Some x \<Rightarrow> 0 \<le> x \<and> x \<le> 255)"

subsection \<open>The smoothing buffer\<close>

definition fftSize :: nat where
  "fftSize = 1024"

text \<open>\<open>analyser.frequencyBinCount\<close> is half of the analyser's \<open>fftSize\<close>.\<close>

definition frequencyBinCount :: nat where
  "frequencyBinCount = fftSize div 2"

text \<open>
  \<open>if (prevDataRef.current.length !== bufferLength) prevDataRef.current =
  new Float32Array(bufferLength).fill(0)\<close>
\<close>

definition init_prevData :: "num list \<Rightarrow> nat \<Rightarrow> num list" where
  "init_prevData prev bufferLength =
     (if length prev \<noteq> bufferLength then replicate bufferLength (Some 0) else prev)"

definition smoothingFactor :: "VisualizerMode \<Rightarrow> real" where
  "smoothingFactor mode =
     (let smoothingFactor = 0.3;
          smoothingFactor = (if mode = SPIRAL then 0.8 else smoothingFactor);
          smoothingFactor = (if mode = WAVE then 0.5 else smoothingFactor)
      in smoothingFactor)"

text \<open>
  \<open>const target = isPlaying ? dataArray[i] : 0\<close>, where \<open>dataArray\<close> is the
  \<open>Uint8Array\<close> the analyser filled.
\<close>

definition smooth_target :: "bool \<Rightarrow> 8 word list \<Rightarrow> nat \<Rightarrow> num" where
  "smooth_target isPlaying dataArray i =
     (if isPlaying
      then (if i < length dataArray then Some (real (unat (dataArray ! i))) else None)
      else Some 0)"

text \<open>\<open>p += (target - p) * smoothingFactor\<close>\<close>

definition ema :: "real \<Rightarrow> real \<Rightarrow> real \<Rightarrow> real" where
  "ema factor p target = p + (target - p) * factor"

text \<open>
  One pass of the smoothing loop, for bin \<open>i\<close>, on the pair of \<open>prevDataRef.current\<close>
  and \<open>smoothData\<close>.
\<close>

definition smooth_step ::
  "bool \<Rightarrow> 8 word list \<Rightarrow> real \<Rightarrow> nat \<Rightarrow> num list \<times> num list \<Rightarrow> num list \<times> num list" where
  "smooth_step isPlaying dataArray factor i ps =
     (let target = smooth_target isPlaying dataArray i;
          prev = (fst ps) [i := num_lift2 (ema factor) (typed_get (fst ps) i) target]
      in (prev, (snd ps) [i := typed_get prev i]))"

definition smooth ::
  "bool \<Rightarrow> 8 word list \<Rightarrow> real \<Rightarrow> nat \<Rightarrow> num list \<Rightarrow> num list \<times> num list" where
  "smooth isPlaying dataArray factor bufferLength prev =
     fold (smooth_step isPlaying dataArray factor) [0 ..< bufferLength]
       (prev, replicate bufferLength (Some 0))"

text \<open>The smoothing buffer after \<open>k\<close> frames that all see the same analyser data.\<close>

definition smooth_frames ::
  "bool \<Rightarrow> 8 word list \<Rightarrow> real \<Rightarrow> nat \<Rightarrow> nat \<Rightarrow> num list \<Rightarrow> num list" where
  "smooth_frames isPlaying dataArray factor bufferLength k prev =
     ((\<lambda>p. fst (smooth isPlaying dataArray factor bufferLength p)) ^^ k) prev"

subsection \<open>The scene\<close>

text \<open>
  What a frame leaves in the \<open>svg\<close> element: one primitive per datum of the data
  join.  Of the attributes the program sets, the numeric ones it computes itself are
  kept; colours and the band positions of \<open>d3.scaleBand\<close> are left out.  The group
  of two paths that Wave draws for a petal is one \<open>Petal\<close>, with the points the
  paths run through; \<open>Defs\<close> is the gradient definition of Spectrum.
\<close>

datatype primitive =
    Rect (rect_y: num) (rect_height: num)
  | Circle (circle_cx: num) (circle_cy: num) (circle_r: num) (circle_opacity: num)
  | Line (line_x1: num) (line_y1: num) (line_x2: num) (line_y2: num)
      (line_width: num) (line_opacity: num)
  | Petal (petal_points: "(num \<times> num) list") (petal_opacity: num)
  | Defs

fun is_rect :: "primitive \<Rightarrow> bool" where
  "is_rect (Rect y h) = True"
| "is_rect p = False"

fun is_circle :: "primitive \<Rightarrow> bool" where
  "is_circle (Circle cx cy r opacity) = True"
| "is_circle p = False"

fun is_line :: "primitive \<Rightarrow> bool" where
  "is_line (Line x1 y1 x2 y2 w opacity) = True"
| "is_line p = False"

text \<open>\<open>d3.scaleLinear().domain([d0, d1]).range([r0, r1])\<close>\<close>

definition scaleLinear :: "real \<Rightarrow> real \<Rightarrow> real \<Rightarrow> real \<Rightarrow> real \<Rightarrow> real" where
  "scaleLinear d0 d1 r0 r1 v = r0 + (v - d0) / (d1 - d0) * (r1 - r0)"

subsection \<open>Bars and Spectrum\<close>

text \<open>The bins of bucket \<open>i\<close>: \<open>i * step + j\<close> for \<open>j < step\<close>.\<close>

definition bucket_indices :: "nat \<Rightarrow> nat \<Rightarrow> nat list" where
  "bucket_indices step i = map (\<lambda>j. i * step + j) [0 ..< step]"

text \<open>\<open>sum / step\<close>; with \<open>step = 0\<close> the program divides 0 by 0.\<close>

definition bucket_average :: "num list \<Rightarrow> nat \<Rightarrow> nat \<Rightarrow> num" where
  "bucket_average smoothData step i =
     (if step = 0 then None
      else map_option (\<lambda>s. s / real step) (sum_reads smoothData (bucket_indices step i)))"

definition bars_step :: "nat \<Rightarrow> nat" where
  "bars_step bufferLength = nat \<lfloor>(real bufferLength * 0.7) / 64\<rfloor>"

definition render_bars :: "num list \<Rightarrow> real \<Rightarrow> real \<Rightarrow> nat \<Rightarrow> primitive list" where
  "render_bars smoothData width height bufferLength =
     (let barCount = 64;
          step = bars_step bufferLength;
          visualData = map (\<lambda>i. (bucket_average smoothData step i, i * step)) [0 ..< barCount];
          yScale = scaleLinear 0 255 height (height * 0.1)
      in map (\<lambda>d. Rect (map_option yScale (fst d))
                        (map_option (\<lambda>v. max 4 (height - yScale v)) (fst d)))
             visualData)"

definition spectrum_step :: "nat \<Rightarrow> nat" where
  "spectrum_step bufferLength = nat \<lfloor>(real bufferLength * 0.8) / 96\<rfloor>"

definition render_spectrum :: "num list \<Rightarrow> real \<Rightarrow> real \<Rightarrow> nat \<Rightarrow> primitive list" where
  "render_spectrum smoothData width height bufferLength =
     (let barCount = 96;
          step = spectrum_step bufferLength;
          visualData = map (\<lambda>i. (bucket_average smoothData step i, i * step)) [0 ..< barCount];
          yScale = scaleLinear 0 255 height 0
      in Defs #
         map (\<lambda>d. Rect (map_option yScale (fst d))
                        (map_option (\<lambda>v. max 2 (height - yScale v)) (fst d)))
             visualData)"

subsection \<open>Wave (the mandala)\<close>

definition wave_freqStart :: "nat \<Rightarrow> nat \<Rightarrow> nat" where
  "wave_freqStart bufferLength petal = nat \<lfloor>(real petal / 16) * (real bufferLength * 0.6)\<rfloor>"

text \<open>\<open>Array.from(smoothData).slice(start, start + petalSize)\<close>: a slice stops at the end.\<close>

definition slice :: "num list \<Rightarrow> nat \<Rightarrow> nat \<Rightarrow> num list" where
  "slice a start stop = take (stop - start) (drop start a)"

definition render_wave :: "num list \<Rightarrow> real \<Rightarrow> real \<Rightarrow> real \<Rightarrow> nat \<Rightarrow> primitive list" where
  "render_wave smoothData time width height bufferLength =
     (let centerX = width / 2;
          centerY = height / 2;
          numPetals = 16;
          maxMandalaSize = min width height * 0.5;
          petalSize = 80;
          totalEnergy = map_option (\<lambda>s. s / 100 / 255) (sum_reads smoothData [0 ..< 100]);
          spiralPhase = js_rem (time * 20) 100
      in map (\<lambda>petal.
            let petalAngle = (real petal / real numPetals) * pi * 2;
                freqStart = wave_freqStart bufferLength petal;
                petalData = slice smoothData freqStart (freqStart + petalSize);
                mirroredData = petalData @ rev petalData;
                petalEnergy =
                  (if petalData = [] then None
                   else map_option (\<lambda>s. s / real (length petalData) / 255)
                          (fold (\<lambda>v s. num_add s v) petalData (Some 0)));
                petalSpiralPhase = js_rem (spiralPhase + real petal * 6.25) 100;
                petalSpiralScale = petalSpiralPhase / 100;
                currentSize =
                  map_option (\<lambda>e. maxMandalaSize * petalSpiralScale * (1.0 + e * 0.3)) petalEnergy;
                fadeOut = 1.0 - (petalSpiralScale * 0.5);
                points =
                  map (\<lambda>(i, val).
                         let angle = petalAngle
                               + ((real i / real (length mirroredData)) - 0.5) * 0.4;
                             radius = num_lift2 (\<lambda>c v. c * 0.3 + (v / 255) * (c * 0.7))
                                        currentSize val
                         in (map_option (\<lambda>r. centerX + cos angle * r) radius,
                             map_option (\<lambda>r. centerY + sin angle * r) radius))
                      (zip [0 ..< length mirroredData] mirroredData)
            in Petal points (map_option (\<lambda>e. (0.7 + e * 0.25) * fadeOut) petalEnergy))
          [0 ..< numPetals])"

subsection \<open>Circle\<close>

definition circle_step :: "nat \<Rightarrow> nat" where
  "circle_step bufferLength = nat \<lfloor>(real bufferLength * 0.6) / 80\<rfloor>"

definition circle_spectrumIndex :: "nat \<Rightarrow> nat \<Rightarrow> nat" where
  "circle_spectrumIndex step i =
     (if real i < 80 / 2 then i * step else (80 - 1 - i) * step)"

text \<open>The radius of the core before the factor 0.9 that the \<open>r\<close> attribute applies.\<close>

definition circle_currentRadius :: "num list \<Rightarrow> real \<Rightarrow> real \<Rightarrow> num" where
  "circle_currentRadius smoothData width height =
     (let radiusInner = min width height / 4.5;
          bassSum = sum_reads smoothData [0 ..< 10];
          bassAvg = map_option (\<lambda>s. s / 10) bassSum
      in map_option (\<lambda>b. radiusInner + (b / 255) * 15) bassAvg)"

definition render_circle :: "num list \<Rightarrow> real \<Rightarrow> real \<Rightarrow> nat \<Rightarrow> primitive list" where
  "render_circle smoothData width height bufferLength =
     (let centerX = width / 2;
          centerY = height / 2;
          points = 80;
          radiusInner = min width height / 4.5;
          maxBarHeight = min width height / 3;
          currentRadius = circle_currentRadius smoothData width height;
          step = circle_step bufferLength;
          visualData =
            map (\<lambda>i. (typed_get smoothData (circle_spectrumIndex step i),
                       circle_spectrumIndex step i))
                [0 ..< points];
          angleStep = (pi * 2) / real points;
          core = Circle (Some centerX) (Some centerY)
                   (map_option (\<lambda>c. c * 0.9) currentRadius) (Some 0.8)
      in core #
         map (\<lambda>(i, d).
                let h = map_option (\<lambda>v. (v / 255) * maxBarHeight) (fst d);
                    a = real i * angleStep - pi / 2
                in Line (map_option (\<lambda>c. centerX + cos a * (c + 5)) currentRadius)
                        (map_option (\<lambda>c. centerY + sin a * (c + 5)) currentRadius)
                        (num_lift2 (\<lambda>c h. centerX + cos a * (c + 5 + h)) currentRadius h)
                        (num_lift2 (\<lambda>c h. centerY + sin a * (c + 5 + h)) currentRadius h)
                        (Some ((pi * 2 * radiusInner) / real points * 0.6))
                        (Some 1))
             (zip [0 ..< points] visualData))"

subsection \<open>Spiral\<close>

definition spiral_freqRange :: "nat \<Rightarrow> nat" where
  "spiral_freqRange bufferLength = nat \<lfloor>real bufferLength * 0.5\<rfloor>"

text \<open>\<open>smoothData[i % freqRange]\<close>; with \<open>freqRange = 0\<close> the index is \<open>NaN\<close>.\<close>

definition spiral_val :: "num list \<Rightarrow> nat \<Rightarrow> nat \<Rightarrow> num" where
  "spiral_val smoothData freqRange i =
     (if freqRange = 0 then None else typed_get smoothData (i mod freqRange))"

definition render_spiral :: "num list \<Rightarrow> real \<Rightarrow> real \<Rightarrow> real \<Rightarrow> nat \<Rightarrow> primitive list" where
  "render_spiral smoothData time width height bufferLength =
     (let centerX = width / 2;
          centerY = height / 2;
          points = 350;
          angleStep = 2.39996;
          spacing = min width height / 30;
          freqRange = spiral_freqRange bufferLength
      in concat (map (\<lambda>i.
           let val = spiral_val smoothData freqRange i
           in [Circle
                 (Some (centerX + (spacing * sqrt (real i) * cos (real i * angleStep + time * 0.2))))
                 (Some (centerY + (spacing * sqrt (real i) * sin (real i * angleStep + time * 0.2))))
                 (map_option (\<lambda>v. 2 + (v / 255) * 8) val)
                 (map_option (\<lambda>v. 0.4 + (v / 512)) val),
               Circle
                 (Some (centerX + (spacing * sqrt (real i) * cos (- real i * angleStep - time * 0.3))))
                 (Some (centerY + (spacing * sqrt (real i) * sin (- real i * angleStep - time * 0.3))))
                 (map_option (\<lambda>v. 2 + (v / 255) * 6) val)
                 (map_option (\<lambda>v. 0.4 + (v / 512)) val)])
         [0 ..< points]))"

subsection \<open>Particles\<close>

definition particles_freqIndex :: "nat \<Rightarrow> nat \<Rightarrow> nat" where
  "particles_freqIndex bufferLength i = nat \<lfloor>(real i / 150) * real bufferLength * 0.6\<rfloor>"

definition render_particles :: "num list \<Rightarrow> real \<Rightarrow> real \<Rightarrow> real \<Rightarrow> nat \<Rightarrow> primitive list" where
  "render_particles smoothData time width height bufferLength =
     (let centerY = height / 2;
          particleCount = 150;
          totalEnergy = map_option (\<lambda>s. s / 50 / 255) (sum_reads smoothData [0 ..< 50])
      in map (\<lambda>i.
            let freqIndex = particles_freqIndex bufferLength i;
                val = typed_get smoothData freqIndex;
                energy = map_option (\<lambda>v. v / 255) val;
                baseX = (real i / real particleCount) * width;
                waveOffset = map_option (\<lambda>e. sin (time * 2 + real i * 0.1) * 50 * e) energy
            in Circle
                 (map_option (\<lambda>w. baseX + w) waveOffset)
                 (map_option (\<lambda>e. centerY + sin (time + real i * 0.15) * (height * 0.3)
                                       * (0.5 + e * 0.5)) energy)
                 (map_option (\<lambda>e. 2 + e * 12) energy)
                 (map_option (\<lambda>e. 0.3 + e * 0.6) energy))
          [0 ..< particleCount])"

subsection \<open>Rings\<close>

definition rings_freqStart :: "nat \<Rightarrow> nat \<Rightarrow> nat" where
  "rings_freqStart bufferLength i = nat \<lfloor>(real i / 12) * real bufferLength * 0.5\<rfloor>"

text \<open>\<open>for (j < 20) ringEnergy += smoothData[freqStart + j] || 0\<close>\<close>

definition rings_indices :: "nat \<Rightarrow> nat list" where
  "rings_indices freqStart = map (\<lambda>j. freqStart + j) [0 ..< 20]"

definition ring_energy :: "num list \<Rightarrow> nat \<Rightarrow> real" where
  "ring_energy smoothData freqStart =
     fold (\<lambda>k e. e + or_zero (typed_get smoothData k)) (rings_indices freqStart) 0 / 20 / 255"

definition render_rings :: "num list \<Rightarrow> real \<Rightarrow> real \<Rightarrow> real \<Rightarrow> nat \<Rightarrow> primitive list" where
  "render_rings smoothData time width height bufferLength =
     (let centerX = width / 2;
          centerY = height / 2;
          ringCount = 12
      in map (\<lambda>i.
            let freqStart = rings_freqStart bufferLength i;
                ringEnergy = ring_energy smoothData freqStart;
                baseRadius = (real (i + 1) / real ringCount) * min width height * 0.45;
                pulse = sin (time * 3 + real i * 0.5) * 10;
                radius = baseRadius + pulse + ringEnergy * 40
            in Circle (Some centerX) (Some centerY) (Some radius) (Some (0.4 + ringEnergy * 0.5)))
          [0 ..< ringCount])"

subsection \<open>DNA\<close>

definition dna_freqIndex :: "nat \<Rightarrow> nat \<Rightarrow> nat" where
  "dna_freqIndex bufferLength i = nat \<lfloor>(real i / 120) * real bufferLength * 0.6\<rfloor>"

text \<open>An element of \<open>helixData\<close>, tagged as the program tags it with \<open>type\<close>.\<close>

datatype helix_type = Strand1 | Strand2 | Connector

record helix_item =
  helix_type :: helix_type
  helix_x :: num
  helix_y :: real
  helix_x2 :: num
  helix_energy :: num

definition helixData :: "num list \<Rightarrow> real \<Rightarrow> real \<Rightarrow> real \<Rightarrow> nat \<Rightarrow> helix_item list" where
  "helixData smoothData time width height bufferLength =
     (let centerX = width / 2;
          points = 120;
          helixRadius = min width height * 0.15;
          helixLength = height * 0.8;
          startY = (height - helixLength) / 2
      in concat (map (\<lambda>i.
           let t = real i / real points;
               y = startY + t * helixLength;
               angle1 = t * pi * 6 + time;
               angle2 = t * pi * 6 + time + pi;
               freqIndex = dna_freqIndex bufferLength i;
               val = typed_get smoothData freqIndex;
               energy = map_option (\<lambda>v. v / 255) val;
               x1 = map_option (\<lambda>e. centerX + cos angle1 * helixRadius * (1 + e * 0.3)) energy;
               x2 = map_option (\<lambda>e. centerX + cos angle2 * helixRadius * (1 + e * 0.3)) energy
           in [\<lparr> helix_type = Strand1, helix_x = x1, helix_y = y, helix_x2 = None,
                 helix_energy = energy \<rparr>,
               \<lparr> helix_type = Strand2, helix_x = x2, helix_y = y, helix_x2 = None,
                 helix_energy = energy \<rparr>]
              @ (if i mod 8 = 0
                 then [\<lparr> helix_type = Connector, helix_x = x1, helix_y = y, helix_x2 = x2,
                         helix_energy = energy \<rparr>]
                 else []))
         [0 ..< points]))"

definition render_dna :: "num list \<Rightarrow> real \<Rightarrow> real \<Rightarrow> real \<Rightarrow> nat \<Rightarrow> primitive list" where
  "render_dna smoothData time width height bufferLength =
     (let items = helixData smoothData time width height bufferLength
      in map (\<lambda>d. Circle (helix_x d) (Some (helix_y d))
                     (map_option (\<lambda>e. 3 + e * 5) (helix_energy d))
                     (map_option (\<lambda>e. 0.7 + e * 0.3) (helix_energy d)))
             (filter (\<lambda>d. helix_type d \<noteq> Connector) items)
         @
         map (\<lambda>d. Line (helix_x d) (Some (helix_y d)) (helix_x2 d) (Some (helix_y d))
                     (map_option (\<lambda>e. 1 + e * 3) (helix_energy d))
                     (map_option (\<lambda>e. 0.5 + e * 0.4) (helix_energy d)))
             (filter (\<lambda>d. helix_type d = Connector) items))"

subsection \<open>A frame\<close>

definition render ::
  "VisualizerMode \<Rightarrow> num list \<Rightarrow> real \<Rightarrow> real \<Rightarrow> real \<Rightarrow> nat \<Rightarrow> primitive list" where
  "render mode smoothData time width height bufferLength =
     (case mode of
        BARS \<Rightarrow> render_bars smoothData width height bufferLength
      | WAVE \<Rightarrow> render_wave smoothData time width height bufferLength
      | CIRCLE \<Rightarrow> render_circle smoothData width height bufferLength
      | SPIRAL \<Rightarrow> render_spiral smoothData time width height bufferLength
      | PARTICLES \<Rightarrow> render_particles smoothData time width height bufferLength
      | SPECTRUM \<Rightarrow> render_spectrum smoothData width height bufferLength
      | RINGS \<Rightarrow> render_rings smoothData time width height bufferLength
      | DNA \<Rightarrow> render_dna smoothData time width height bufferLength)"

text \<open>
  The component's props; \<open>p_analyser\<close> says that the analyser is not \<open>null\<close>.
\<close>

record VisualizerProps =
  p_analyser :: bool
  p_isPlaying :: bool
  p_mode :: VisualizerMode

text \<open>
  What lives across frames: the smoothing buffer, the children of the \<open>svg\<close>
  element, and whether an animation frame is requested and not cancelled.
\<close>

record visualizer =
  prevDataRef :: "num list"
  svg :: "primitive list"
  animationRef :: bool

text \<open>
  What a frame reads from outside: the bytes \<open>getByteFrequencyData\<close> writes into
  \<open>dataArray\<close>, and \<open>Date.now() / 1000\<close>.
\<close>

type_synonym frame_input = "8 word list \<times> real"

text \<open>The part of \<open>renderFrame\<close> after the check that suspends the loop.\<close>

definition draw_frame ::
  "VisualizerProps \<Rightarrow> real \<Rightarrow> real \<Rightarrow> nat \<Rightarrow> frame_input \<Rightarrow> visualizer \<Rightarrow> visualizer" where
  "draw_frame props width height bufferLength inp vs =
     (let ps = smooth (p_isPlaying props) (fst inp) (smoothingFactor (p_mode props))
                 bufferLength (prevDataRef vs)
      in vs \<lparr> prevDataRef := fst ps,
              svg := render (p_mode props) (snd ps) (snd inp) width height bufferLength,
              animationRef := True \<rparr>)"

definition renderFrame ::
  "VisualizerProps \<Rightarrow> real \<Rightarrow> real \<Rightarrow> nat \<Rightarrow> frame_input \<Rightarrow> visualizer \<Rightarrow> visualizer" where
  "renderFrame props width height bufferLength inp vs =
     (if \<not> p_isPlaying props \<and> p_mode props \<noteq> CIRCLE \<and> p_mode props \<noteq> SPIRAL
           \<and> p_mode props \<noteq> WAVE
      then (if \<not> p_isPlaying props
            then vs \<lparr> animationRef := False \<rparr>
            else draw_frame props width height bufferLength inp vs)
      else draw_frame props width height bufferLength inp vs)"

text \<open>
  The effect that runs when the analyser, \<open>isPlaying\<close> or the mode changes: it
  empties the \<open>svg\<close> element, sets the analysis size, sizes the smoothing buffer and
  calls \<open>renderFrame\<close> once.  Its cleanup cancels the requested frame.
\<close>

definition effect ::
  "VisualizerProps \<Rightarrow> real \<Rightarrow> real \<Rightarrow> frame_input \<Rightarrow> visualizer \<Rightarrow> visualizer" where
  "effect props width height inp vs =
     (if \<not> p_analyser props then vs
      else
        let bufferLength = frequencyBinCount;
            vs = vs \<lparr> svg := [] \<rparr>;
            vs = vs \<lparr> prevDataRef := init_prevData (prevDataRef vs) bufferLength \<rparr>
        in renderFrame props width height bufferLength inp vs)"

definition cleanup :: "visualizer \<Rightarrow> visualizer" where
  "cleanup vs = vs \<lparr> animationRef := False \<rparr>"



subsection \<open>The bins a mode reads\<close>

text \<open>
  The indices at which a mode's frame reads \<open>smoothData\<close>, in the order of the
  reads, built from the index functions the render functions use.  For Wave the indices of
  each petal's slice are listed as if the slice did not stop at the end of the array.
  For Spiral the list is the program's for \<open>freqRange > 0\<close>.
\<close>

definition mode_reads :: "VisualizerMode \<Rightarrow> nat \<Rightarrow> nat list" where
  "mode_reads mode bufferLength =
     (case mode of
        BARS \<Rightarrow> concat (map (bucket_indices (bars_step bufferLength)) [0 ..< 64])
      | WAVE \<Rightarrow>
          [0 ..< 100] @
          concat (map (\<lambda>petal. [wave_freqStart bufferLength petal ..<
                                  wave_freqStart bufferLength petal + 80]) [0 ..< 16])
      | CIRCLE \<Rightarrow>
          [0 ..< 10] @ map (circle_spectrumIndex (circle_step bufferLength)) [0 ..< 80]
      | SPIRAL \<Rightarrow> map (\<lambda>i. i mod spiral_freqRange bufferLength) [0 ..< 350]
      | PARTICLES \<Rightarrow> [0 ..< 50] @ map (particles_freqIndex bufferLength) [0 ..< 150]
      | SPECTRUM \<Rightarrow> concat (map (bucket_indices (spectrum_step bufferLength)) [0 ..< 96])
      | RINGS \<Rightarrow>
          concat (map (\<lambda>i. rings_indices (rings_freqStart bufferLength i)) [0 ..< 12])
      | DNA \<Rightarrow> map (dna_freqIndex bufferLength) [0 ..< 120])"

section \<open>Properties of the signal graph\<close>

lemma eqChain_ten: "length (eqNodesRef st) = 10 \<Longrightarrow> eqChain st = eq_nodes"
  by (simp add: eqChain_def eq_nodes_def upt_rec)

lemma chain_of_ten:
  "connect_chain SourceN eq_nodes [] = (EqN 9, butlast (butlast flat_topology))"
  by (simp add: eq_nodes_def connect_def flat_topology_def)

lemma disconnect_flat:
  "fold disconnect eq_nodes (disconnect SourceN flat_topology) = [(AnalyserN, 0, DestinationN, 0)]"
  by (simp add: eq_nodes_def disconnect_def flat_topology_def)

lemma disconnect_karaoke:
  "fold disconnect eq_nodes (disconnect SourceN karaoke_topology) =
     [(SplitterN, 0, MergerN, 0), (SplitterN, 1, InvertGainN, 0), (InvertGainN, 0, MergerN, 0),
      (SplitterN, 1, MergerN, 1), (SplitterN, 0, InvertGainN, 0), (InvertGainN, 0, MergerN, 1),
      (MergerN, 0, AnalyserN, 0), (AnalyserN, 0, DestinationN, 0)]"
  by (simp add: eq_nodes_def disconnect_def karaoke_topology_def)

text \<open>Switching vocal cancellation on, from the flat topology.\<close>

lemma toggle_on:
  assumes "wired st" and "\<not> karaokeMode st" and "connections st = flat_topology"
  shows "toggleKaraokeMode st = st \<lparr> connections := karaoke_topology, karaokeMode := True \<rparr>"
proof -
  have none_left: "disconnect_everything st = []"
    using assms unfolding disconnect_everything_def wired_def
    apply (simp add: eqChain_ten disconnect_flat)
    apply (simp add: disconnect_def)
    done
  obtain c a g where refs: "audioContextRef st = Some c" "analyserRef st = Some a"
    "invertGainRef st = Some g" "sourceNodeRef st" "splitterRef st" "mergerRef st"
    "eqChain st = eq_nodes"
    using assms(1) by (auto simp add: wired_def eqChain_ten)
  show ?thesis
    unfolding toggleKaraokeMode_def none_left
    by (simp add: refs assms(2) chain_of_ten connect_def flat_topology_def karaoke_topology_def)
qed

text \<open>Switching it off again.\<close>

lemma toggle_off:
  assumes "wired st" and "karaokeMode st" and "connections st = karaoke_topology"
  shows "toggleKaraokeMode st = st \<lparr> connections := flat_topology, karaokeMode := False \<rparr>"
proof -
  have none_left: "disconnect_everything st = []"
    using assms unfolding disconnect_everything_def wired_def
    apply (simp add: eqChain_ten disconnect_karaoke)
    apply (simp add: disconnect_def)
    done
  obtain c a where refs: "audioContextRef st = Some c" "analyserRef st = Some a"
    "sourceNodeRef st" "eqChain st = eq_nodes"
    using assms(1) by (auto simp add: wired_def eqChain_ten)
  show ?thesis
    unfolding toggleKaraokeMode_def none_left
    by (simp add: refs assms(2) chain_of_ten connect_def flat_topology_def)
qed

lemma init_wired: "wired (initAudioContext fresh (initial_player saved))"
  by (simp add: wired_def initAudioContext_def initial_player_def EQ_FREQUENCIES_def
      split: prod.split)

lemma init_connections:
  "connections (initAudioContext fresh (initial_player saved)) = flat_topology"
  by (simp add: initAudioContext_def initial_player_def EQ_FREQUENCIES_def connect_def
      flat_topology_def split: prod.split)

lemma init_karaokeMode: "karaokeMode (initAudioContext fresh (initial_player saved)) = False"
  by (simp add: initAudioContext_def initial_player_def split: prod.split)

lemma init_invertGain:
  "invertGainRef (initAudioContext fresh (initial_player saved)) = Some (- 1)"
  by (simp add: initAudioContext_def initial_player_def split: prod.split)

lemma toggle_after_init:
  "toggleKaraokeMode (initAudioContext fresh (initial_player saved)) =
     (initAudioContext fresh (initial_player saved))
       \<lparr> connections := karaoke_topology, karaokeMode := True \<rparr>"
  by (rule toggle_on) (simp_all add: init_wired init_connections init_karaokeMode)

text \<open>
  What the wired vocal-cancellation topology computes with the inverter at gain \<open>-1\<close>:
  both splitter outputs feed the one gain node, so its output is \<open>-(l + r)\<close>, and
  each merger input adds its own channel to that.  The left output is \<open>-r\<close> and the
  right output is \<open>-l\<close>.
\<close>

lemma karaoke_output_swapped:
  assumes "connections st = karaoke_topology" and "invertGainRef st = Some (- 1)"
  shows "karaoke_output st (l, r) = (- r, - l)"
  using assms
  by (simp add: karaoke_output_def merger_input_def invertGain_output_def splitter_output_def
      karaoke_topology_def)

text \<open>
  C1.  The claim: with vocal cancellation on, the wired topology computes the left
  output as the left channel less the right one and the right output as the right channel
  less the left one, so that content that is the same in both channels is attenuated.
  The code does not: on the centre-panned sample \<open>(1, 1)\<close> the graph that
  \<open>toggleKaraokeMode\<close> wires after initialisation puts out \<open>(-1, -1)\<close>, as loud as
  it came in, where the claim has \<open>(0, 0)\<close>.
\<close>

theorem karaoke_centre_not_cancelled:
  "karaoke_output
     (toggleKaraokeMode (initAudioContext Running (initial_player None))) (1, 1) = (- 1, - 1)"
  unfolding toggle_after_init
  by (rule karaoke_output_swapped) (simp_all add: init_invertGain)

theorem karaoke_centre_not_cancelled_witness:
  "fst (karaoke_output
     (toggleKaraokeMode (initAudioContext Running (initial_player None))) (1, 1)) = - 1 \<and>
   snd (karaoke_output
     (toggleKaraokeMode (initAudioContext Running (initial_player None))) (1, 1)) = - 1"
  using karaoke_centre_not_cancelled by simp

text \<open>
  C3.  After initialisation the connections are the flat topology (source, the ten filter
  stages in order, the analysis node, the destination) and the karaoke flag is false;
  toggling vocal cancellation twice gives the same set of connections again and
  the flag is false again.
\<close>

theorem toggle_twice_restores_flat:
  "connections (initAudioContext fresh (initial_player saved)) = flat_topology \<and>
   karaokeMode (initAudioContext fresh (initial_player saved)) = False \<and>
   set (connections (toggleKaraokeMode (toggleKaraokeMode
          (initAudioContext fresh (initial_player saved)))))
     = set (connections (initAudioContext fresh (initial_player saved))) \<and>
   karaokeMode (toggleKaraokeMode (toggleKaraokeMode
          (initAudioContext fresh (initial_player saved)))) = False"
proof -
  let ?s = "initAudioContext fresh (initial_player saved)"
  have on_wired: "wired (?s \<lparr> connections := karaoke_topology, karaokeMode := True \<rparr>)"
    using init_wired [of fresh saved] by (simp add: wired_def)
  have twice: "toggleKaraokeMode (toggleKaraokeMode ?s) =
      ?s \<lparr> connections := flat_topology, karaokeMode := False \<rparr>"
    unfolding toggle_after_init using toggle_off [OF on_wired] by simp
  show ?thesis
    unfolding twice by (simp add: init_connections init_karaokeMode)
qed

theorem toggle_twice_restores_flat_witness:
  "set (connections (toggleKaraokeMode (toggleKaraokeMode
          (initAudioContext Running (initial_player None))))) = set flat_topology \<and>
   karaokeMode (toggleKaraokeMode (toggleKaraokeMode
          (initAudioContext Running (initial_player None)))) = False"
  using toggle_twice_restores_flat [of Running None] by simp

section \<open>Properties of the band-gain update\<close>

lemma init_eqNodes:
  "eqNodesRef (initAudioContext fresh (initial_player saved)) =
     map (\<lambda>freq. \<lparr> filter_frequency = freq, filter_Q = 1.4, filter_gain = 0 \<rparr>) EQ_FREQUENCIES"
  by (simp add: initAudioContext_def initial_player_def split: prod.split)

lemma init_eqBands:
  "eqBands (initAudioContext fresh (initial_player saved)) = eqBands (initial_player saved)"
  by (simp add: initAudioContext_def initial_player_def split: prod.split)

lemma handleEQChange_in_range:
  assumes "0 \<le> i" and "nat i < length (eqBands st)" and "nat i < length (eqNodesRef st)"
  shows "stored_gain (fst (handleEQChange i g st)) (nat i) = g"
    and "live_gain (fst (handleEQChange i g st)) (nat i) = g"
    and "snd (handleEQChange i g st) = None"
  using assms
  by (simp_all add: handleEQChange_def set_band_gain_def stored_gain_def live_gain_def)

text \<open>The guard of the filter write: an index with no filter stage changes no stage.\<close>

lemma handleEQChange_filters_kept:
  assumes "i < 0 \<or> length (eqNodesRef st) \<le> nat i"
  shows "eqNodesRef (fst (handleEQChange i g st)) = eqNodesRef st"
  using assms
  by (auto simp add: handleEQChange_def split: prod.split)

text \<open>
  C9.  After initialisation with ten stored bands, for every gain \<open>g\<close> from -12 to 12
  and every band index \<open>i\<close> from 0 to 9, \<open>handleEQChange i g\<close> leaves \<open>g\<close> in the
  gain parameter of filter stage \<open>i\<close> and in the stored band \<open>i\<close>.  (Gains are
  reals here, so the value read back is \<open>g\<close> itself.)
\<close>

theorem setBandGain_reads_back:
  assumes "- 12 \<le> g" and "g \<le> 12" and "0 \<le> i" and "i \<le> 9"
    and "length (eqBands (initial_player saved)) = 10"
  shows "live_gain (fst (handleEQChange i g (initAudioContext fresh (initial_player saved)))) (nat i) = g \<and>
         stored_gain (fst (handleEQChange i g (initAudioContext fresh (initial_player saved)))) (nat i) = g"
proof -
  let ?s = "initAudioContext fresh (initial_player saved)"
  have "nat i < length (eqBands ?s)" "nat i < length (eqNodesRef ?s)"
    using assms by (auto simp add: init_eqBands init_eqNodes EQ_FREQUENCIES_def)
  with assms(3) show ?thesis
    by (simp add: handleEQChange_in_range)
qed

theorem setBandGain_reads_back_witness:
  "live_gain (fst (handleEQChange 3 (-4.5) (initAudioContext Running (initial_player None)))) 3 = -4.5 \<and>
   stored_gain (fst (handleEQChange 3 (-4.5) (initAudioContext Running (initial_player None)))) 3 = -4.5"
  using setBandGain_reads_back [of "-4.5" 3 None Running]
  by (simp add: initial_player_def EQ_FREQUENCIES_def)

text \<open>
  C2.  The claim has \<open>handleEQChange\<close> clamp the gain to the range from -12 to 12, so
  that setting band 0 to 20 leaves 12 in the stored band and in the filter stage.  The
  code has no clamp: after the call both are 20.
\<close>

theorem gain_20_not_clamped:
  "stored_gain (fst (handleEQChange 0 20 (initAudioContext Running (initial_player None)))) 0 = 20 \<and>
   live_gain (fst (handleEQChange 0 20 (initAudioContext Running (initial_player None)))) 0 = 20 \<and>
   stored_gain (fst (handleEQChange 0 20 (initAudioContext Running (initial_player None)))) 0 \<noteq> 12 \<and>
   live_gain (fst (handleEQChange 0 20 (initAudioContext Running (initial_player None)))) 0 \<noteq> 12"
proof -
  let ?s = "initAudioContext Running (initial_player None)"
  have "length (eqBands (initial_player None)) = 10"
    by (simp add: initial_player_def EQ_FREQUENCIES_def)
  then have "nat 0 < length (eqBands ?s)" "nat 0 < length (eqNodesRef ?s)"
    by (simp_all add: init_eqBands init_eqNodes EQ_FREQUENCIES_def)
  then have "stored_gain (fst (handleEQChange 0 20 ?s)) (nat 0) = 20"
    "live_gain (fst (handleEQChange 0 20 ?s)) (nat 0) = 20"
    by (rule handleEQChange_in_range [OF order_refl])+
  then show ?thesis by simp
qed

text \<open>
  C2, as amended.  After initialisation with ten stored bands, \<open>handleEQChange\<close> does
  not clamp the gain to the range from -12 to 12: setting band 0 to 20 leaves exactly 20,
  above 12, in the stored band and in the gain parameter of the filter stage, neither
  clamped nor wrapped.  For a band index outside 0 to 9 the guarded write leaves every
  filter stage as it was, whatever the gain.
\<close>

theorem handleEQChange_unclamped:
  assumes "length (eqBands (initial_player saved)) = 10"
  shows "stored_gain (fst (handleEQChange 0 20 (initAudioContext fresh (initial_player saved)))) 0
           = 20 \<and>
         live_gain (fst (handleEQChange 0 20 (initAudioContext fresh (initial_player saved)))) 0
           = 20 \<and>
         12 < stored_gain
                (fst (handleEQChange 0 20 (initAudioContext fresh (initial_player saved)))) 0 \<and>
         12 < live_gain
                (fst (handleEQChange 0 20 (initAudioContext fresh (initial_player saved)))) 0 \<and>
         (i < 0 \<or> 9 < i \<longrightarrow>
            eqNodesRef (fst (handleEQChange i g (initAudioContext fresh (initial_player saved))))
              = eqNodesRef (initAudioContext fresh (initial_player saved)))"
proof -
  let ?s = "initAudioContext fresh (initial_player saved)"
  have len: "length (eqBands ?s) = 10" "length (eqNodesRef ?s) = 10"
    using assms by (simp_all add: init_eqBands init_eqNodes EQ_FREQUENCIES_def)
  then have first: "nat 0 < length (eqBands ?s)" "nat 0 < length (eqNodesRef ?s)"
    by simp_all
  have "stored_gain (fst (handleEQChange 0 20 ?s)) (nat 0) = 20"
    "live_gain (fst (handleEQChange 0 20 ?s)) (nat 0) = 20"
    by (rule handleEQChange_in_range [OF order_refl first])+
  then have at_20: "stored_gain (fst (handleEQChange 0 20 ?s)) 0 = 20"
    "live_gain (fst (handleEQChange 0 20 ?s)) 0 = 20"
    by simp_all
  have kept: "eqNodesRef (fst (handleEQChange i g ?s)) = eqNodesRef ?s" if "i < 0 \<or> 9 < i"
    by (rule handleEQChange_filters_kept) (use that len in auto)
  show ?thesis
    using kept by (simp add: at_20)
qed

theorem handleEQChange_unclamped_witness:
  "stored_gain (fst (handleEQChange 0 20 (initAudioContext Running (initial_player None)))) 0 = 20 \<and>
   live_gain (fst (handleEQChange 0 20 (initAudioContext Running (initial_player None)))) 0 = 20 \<and>
   eqNodesRef (fst (handleEQChange 10 5 (initAudioContext Running (initial_player None))))
     = eqNodesRef (initAudioContext Running (initial_player None))"
proof -
  have ten: "length (eqBands (initial_player None)) = 10"
    by (simp add: initial_player_def EQ_FREQUENCIES_def)
  have out: "(10::int) < 0 \<or> 9 < (10::int)"
    by simp
  note inst = handleEQChange_unclamped [where saved = None and fresh = Running and i = 10
      and g = 5, OF ten]
  from inst have "stored_gain
      (fst (handleEQChange 0 20 (initAudioContext Running (initial_player None)))) 0 = 20"
    by (elim conjE)
  moreover from inst have "live_gain
      (fst (handleEQChange 0 20 (initAudioContext Running (initial_player None)))) 0 = 20"
    by (elim conjE)
  moreover from inst out have
    "eqNodesRef (fst (handleEQChange 10 5 (initAudioContext Running (initial_player None))))
       = eqNodesRef (initAudioContext Running (initial_player None))"
    by (elim conjE) (erule mp)
  ultimately show ?thesis by (intro conjI)
qed

section \<open>Properties of the frame loop\<close>

lemma renderFrame_suspends:
  assumes "\<not> p_isPlaying props" and "p_mode props \<in> {BARS, SPECTRUM, RINGS, PARTICLES, DNA}"
  shows "renderFrame props width height n inp vs = vs \<lparr> animationRef := False \<rparr>"
  using assms by (auto simp add: renderFrame_def)






text \<open>
  The effect empties the \<open>svg\<close> element before it calls \<open>renderFrame\<close>, so in these
  modes the scene that stays while playback is stopped is the empty one.
\<close>

lemma effect_blank_when_paused:
  assumes "p_analyser props" and "\<not> p_isPlaying props"
    and "p_mode props \<in> {BARS, SPECTRUM, RINGS, PARTICLES, DNA}"
  shows "svg (effect props width height inp (cleanup vs)) = []"
  using assms
  by (simp add: effect_def cleanup_def Let_def renderFrame_suspends del: insert_iff)



section \<open>Properties of the render modes\<close>

lemma sum_reads_bass:
  assumes "10 \<le> n"
  shows "sum_reads (replicate n (Some 255)) [0 ..< 10] = Some 2550"
  using assms by (simp add: sum_reads_def typed_get_def num_add_def num_lift2_def upt_rec)

lemma core_radius_full:
  assumes "10 \<le> n"
  shows "circle_r (hd (render CIRCLE (replicate n (Some 255)) time width height m))
           = Some ((min width height / 4.5 + 15) * 0.9)"
  by (simp add: render_def render_circle_def circle_currentRadius_def sum_reads_bass [OF assms] Let_def)

text \<open>
  C8.  The claim: in Circle mode, with every bin at 255 and a viewport of 800 by 600, the
  radius of the core is \<open>radiusInner * 0.9\<close> plus 15, with
  \<open>radiusInner = min(width, height) / 4.5\<close>; that is 135.  The code multiplies the
  sum by 0.9, and the radius is 133.5.
\<close>

theorem core_radius_not_plus_15:
  "circle_r (hd (render CIRCLE (replicate 512 (Some 255)) 0 800 600 512)) = Some 133.5 \<and>
   circle_r (hd (render CIRCLE (replicate 512 (Some 255)) 0 800 600 512))
     \<noteq> Some (min 800 600 / 4.5 * 0.9 + 15)"
  by (simp add: core_radius_full)

text \<open>
  C8, as amended.  In Circle mode, with every bin at 255 (and at least the ten bass bins
  present), the radius of the core is \<open>(radiusInner + 15) * 0.9\<close>, which is
  \<open>radiusInner * 0.9 + 13.5\<close>: the offset of 15 is scaled by 0.9 as well.  For a
  viewport of 800 by 600 the radius is 133.5.
\<close>

theorem core_radius_scaled:
  assumes "10 \<le> n"
  shows "circle_r (hd (render CIRCLE (replicate n (Some 255)) time width height m))
           = Some (min width height / 4.5 * 0.9 + 13.5) \<and>
         circle_r (hd (render CIRCLE (replicate n (Some 255)) time 800 600 m)) = Some 133.5"
  by (simp add: core_radius_full [OF assms] algebra_simps)

theorem core_radius_scaled_witness:
  "circle_r (hd (render CIRCLE (replicate 512 (Some 255)) 0 800 600 512)) = Some 133.5"
  using core_radius_scaled [of 512 0 800 600 512] by simp


lemma length_concat_pairs:
  "length (concat (map (\<lambda>i. [f i, g i]) xs)) = 2 * length xs"
  by (induction xs) simp_all

lemma bars_count:
  "length (render BARS smoothData time width height n) = 64 \<and>
   list_all is_rect (render BARS smoothData time width height n)"
  by (simp add: render_def render_bars_def Let_def list_all_iff)

lemma spectrum_count:
  "length (filter is_rect (render SPECTRUM smoothData time width height n)) = 96"
  by (simp add: render_def render_spectrum_def Let_def filter_map comp_def)

lemma rings_count:
  "length (render RINGS smoothData time width height n) = 12 \<and>
   list_all is_circle (render RINGS smoothData time width height n)"
  by (simp add: render_def render_rings_def Let_def list_all_iff)

lemma particles_count:
  "length (render PARTICLES smoothData time width height n) = 150 \<and>
   list_all is_circle (render PARTICLES smoothData time width height n)"
  by (simp add: render_def render_particles_def Let_def list_all_iff)

lemma spiral_count:
  "length (render SPIRAL smoothData time width height n) = 700 \<and>
   list_all is_circle (render SPIRAL smoothData time width height n)"
  by (simp add: render_def render_spiral_def Let_def list_all_iff length_concat_pairs)

text \<open>The tags of \<open>helixData\<close> do not depend on the spectrum.\<close>

lemma helixData_tags:
  "map helix_type (helixData smoothData time width height n) =
     concat (map (\<lambda>i. [Strand1, Strand2] @ (if i mod 8 = 0 then [Connector] else []))
               [0 ..< 120])"
  by (simp add: helixData_def Let_def map_concat comp_def if_distrib cong: if_cong)

lemma filter_tags:
  "length (filter (\<lambda>d. P (helix_type d)) xs) = length (filter P (map helix_type xs))"
  by (simp add: filter_map comp_def)

lemma strands_in_tags:
  "length (filter (\<lambda>t. t \<noteq> Connector)
     (concat (map (\<lambda>i. [Strand1, Strand2] @ (if i mod 8 = 0 then [Connector] else []))
               [0 ..< 120]))) = 240"
  by (simp add: upt_rec)

lemma connectors_in_tags:
  "length (filter (\<lambda>t. t = Connector)
     (concat (map (\<lambda>i. [Strand1, Strand2] @ (if i mod 8 = 0 then [Connector] else []))
               [0 ..< 120]))) = 15"
  by (simp add: upt_rec)

lemma dna_count:
  "length (filter is_circle (render DNA smoothData time width height n)) = 240 \<and>
   length (filter is_line (render DNA smoothData time width height n)) = 15 \<and>
   length (render DNA smoothData time width height n) = 255"
proof -
  let ?items = "helixData smoothData time width height n"
  have "length (filter (\<lambda>d. helix_type d \<noteq> Connector) ?items)
      = length (filter (\<lambda>t. t \<noteq> Connector) (map helix_type ?items))"
    by (rule filter_tags)
  also have "\<dots> = 240"
    unfolding helixData_tags by (rule strands_in_tags)
  finally have s: "length (filter (\<lambda>d. helix_type d \<noteq> Connector) ?items) = 240" .
  have "length (filter (\<lambda>d. helix_type d = Connector) ?items)
      = length (filter (\<lambda>t. t = Connector) (map helix_type ?items))"
    by (rule filter_tags)
  also have "\<dots> = 15"
    unfolding helixData_tags by (rule connectors_in_tags)
  finally have c: "length (filter (\<lambda>d. helix_type d = Connector) ?items) = 15" .
  show ?thesis
    by (simp add: render_def render_dna_def Let_def filter_map comp_def s c)
qed


text \<open>
  C4.  Whatever the spectrum, the time and the viewport, a frame leaves 64 bars in Bars
  mode, 96 bars in Spectrum mode, 12 rings in Rings mode, 700 points in Spiral mode (two
  for each of 350 indices), 150 points in Particles mode, and 240 strand points and 15
  connectors in DNA mode.
\<close>

theorem scene_counts:
  "length (render BARS smoothData time width height n) = 64 \<and>
   list_all is_rect (render BARS smoothData time width height n) \<and>
   length (filter is_rect (render SPECTRUM smoothData time width height n)) = 96 \<and>
   length (render RINGS smoothData time width height n) = 12 \<and>
   list_all is_circle (render RINGS smoothData time width height n) \<and>
   length (render SPIRAL smoothData time width height n) = 700 \<and>
   list_all is_circle (render SPIRAL smoothData time width height n) \<and>
   length (render PARTICLES smoothData time width height n) = 150 \<and>
   list_all is_circle (render PARTICLES smoothData time width height n) \<and>
   length (filter is_circle (render DNA smoothData time width height n)) = 240 \<and>
   length (filter is_line (render DNA smoothData time width height n)) = 15 \<and>
   length (render DNA smoothData time width height n) = 255"
  using bars_count [of smoothData time width height n]
    spectrum_count [of smoothData time width height n]
    rings_count [of smoothData time width height n]
    spiral_count [of smoothData time width height n]
    particles_count [of smoothData time width height n]
    dna_count [of smoothData time width height n]
  by (intro conjI) (elim conjE, assumption)+

lemma nat_floor_less: "0 \<le> x \<Longrightarrow> x < real m \<Longrightarrow> nat \<lfloor>x\<rfloor> < m"
  by (simp add: nat_less_iff floor_less_iff)

lemma steps_512:
  "bars_step 512 = 5" "spectrum_step 512 = 4" "circle_step 512 = 3" "spiral_freqRange 512 = 256"
  by (simp_all add: bars_step_def spectrum_step_def circle_step_def spiral_freqRange_def)

lemma bucket_bound:
  assumes "k \<in> set (concat (map (bucket_indices step) [0 ..< count]))"
  shows "k < count * step"
proof -
  from assms obtain i where "i < count" "k < step + i * step"
    by (auto simp add: bucket_indices_def)
  then have "k < i * step + step" by simp
  also have "\<dots> = Suc i * step" by simp
  also have "\<dots> \<le> count * step"
    using \<open>i < count\<close> by (intro mult_le_mono1) simp
  finally show ?thesis .
qed

lemma bars_reads: "k \<in> set (mode_reads BARS 512) \<Longrightarrow> k < 512"
  using bucket_bound [of k 5 64] by (simp add: mode_reads_def steps_512)

lemma spectrum_reads: "k \<in> set (mode_reads SPECTRUM 512) \<Longrightarrow> k < 512"
  using bucket_bound [of k 4 96] by (simp add: mode_reads_def steps_512)

lemma spiral_reads: "k \<in> set (mode_reads SPIRAL 512) \<Longrightarrow> k < 512"
proof -
  assume "k \<in> set (mode_reads SPIRAL 512)"
  then obtain i where "k = i mod 256"
    by (auto simp add: mode_reads_def steps_512)
  moreover have "i mod 256 < 256" by simp
  ultimately show ?thesis by simp
qed

lemma circle_reads: "k \<in> set (mode_reads CIRCLE 512) \<Longrightarrow> k < 512"
proof -
  assume "k \<in> set (mode_reads CIRCLE 512)"
  then consider "k < 10" | i where "i < 80" "k = circle_spectrumIndex 3 i"
    by (auto simp add: mode_reads_def steps_512)
  then show ?thesis
  proof cases
    case 1 then show ?thesis by simp
  next
    case 2 then show ?thesis by (auto simp add: circle_spectrumIndex_def split: if_splits)
  qed
qed

lemma particles_reads: "k \<in> set (mode_reads PARTICLES 512) \<Longrightarrow> k < 512"
proof -
  assume "k \<in> set (mode_reads PARTICLES 512)"
  then consider "k < 50" | i where "i < 150" "k = particles_freqIndex 512 i"
    by (auto simp add: mode_reads_def)
  then show ?thesis
  proof cases
    case 1 then show ?thesis by simp
  next
    case 2
    have "(real i / 150) * real (512::nat) * 0.6 < real (512::nat)"
      using \<open>i < 150\<close> by simp
    then show ?thesis unfolding 2(2) particles_freqIndex_def by (intro nat_floor_less) simp_all
  qed
qed

lemma dna_reads: "k \<in> set (mode_reads DNA 512) \<Longrightarrow> k < 512"
proof -
  assume "k \<in> set (mode_reads DNA 512)"
  then obtain i where i: "i < 120" "k = dna_freqIndex 512 i"
    by (auto simp add: mode_reads_def)
  have "(real i / 120) * real (512::nat) * 0.6 < real (512::nat)"
    using \<open>i < 120\<close> by simp
  then show ?thesis unfolding i(2) dna_freqIndex_def by (intro nat_floor_less) simp_all
qed

lemma rings_reads: "k \<in> set (mode_reads RINGS 512) \<Longrightarrow> k < 512"
proof -
  assume "k \<in> set (mode_reads RINGS 512)"
  then obtain i where ij: "i < 12" "k < 20 + rings_freqStart 512 i"
    by (auto simp add: mode_reads_def rings_indices_def)
  have "(real i / 12) * real (512::nat) * 0.5 < real (492::nat)"
    using \<open>i < 12\<close> by simp
  then have "rings_freqStart 512 i < 492"
    unfolding rings_freqStart_def by (intro nat_floor_less) simp_all
  with ij show ?thesis by simp
qed

lemma wave_reads: "k \<in> set (mode_reads WAVE 512) \<Longrightarrow> k < 512"
proof -
  assume "k \<in> set (mode_reads WAVE 512)"
  then consider "k < 100" | petal where "petal < 16" "k < wave_freqStart 512 petal + 80"
    by (auto simp add: mode_reads_def)
  then show ?thesis
  proof cases
    case 1 then show ?thesis by simp
  next
    case 2
    have "(real petal / 16) * (real (512::nat) * 0.6) < real (432::nat)"
      using \<open>petal < 16\<close> by simp
    then have "wave_freqStart 512 petal < 432"
      unfolding wave_freqStart_def by (intro nat_floor_less) simp_all
    with 2 show ?thesis by simp
  qed
qed

lemma sum_reads_cong:
  assumes "\<forall>k \<in> set indices. typed_get a k = typed_get b k"
  shows "sum_reads a indices = sum_reads b indices"
proof -
  have "fold (\<lambda>k s. num_add s (typed_get a k)) indices s0
      = fold (\<lambda>k s. num_add s (typed_get b k)) indices s0" for s0
    using assms by (induction indices arbitrary: s0) simp_all
  then show ?thesis by (simp add: sum_reads_def)
qed

lemma slice_cong:
  assumes "length a = length b"
    and "\<forall>k \<in> set [start ..< start + m]. typed_get a k = typed_get b k"
  shows "slice a start (start + m) = slice b start (start + m)"
proof (rule nth_equalityI)
  show "length (slice a start (start + m)) = length (slice b start (start + m))"
    using assms(1) by (simp add: slice_def)
next
  fix i
  assume "i < length (slice a start (start + m))"
  then have i: "i < m" "start + i < length a"
    by (auto simp add: slice_def)
  then have "typed_get a (start + i) = typed_get b (start + i)"
    using assms(2) by simp
  then have "a ! (start + i) = b ! (start + i)"
    using i assms(1) by (simp add: typed_get_def)
  then show "slice a start (start + m) ! i = slice b start (start + m) ! i"
    using i assms(1) by (simp add: slice_def)
qed

lemma bars_depends:
  assumes "\<forall>k \<in> set (mode_reads BARS n). typed_get a k = typed_get b k"
  shows "render BARS a time width height n = render BARS b time width height n"
proof -
  have "bucket_average a (bars_step n) i = bucket_average b (bars_step n) i" if "i < 64" for i
  proof -
    have "\<forall>k \<in> set (bucket_indices (bars_step n) i). typed_get a k = typed_get b k"
      using assms that by (auto simp add: mode_reads_def)
    then have "sum_reads a (bucket_indices (bars_step n) i)
        = sum_reads b (bucket_indices (bars_step n) i)"
      by (rule sum_reads_cong)
    then show ?thesis
      by (simp add: bucket_average_def)
  qed
  then show ?thesis
    by (simp add: render_def render_bars_def Let_def)
qed

lemma spectrum_depends:
  assumes "\<forall>k \<in> set (mode_reads SPECTRUM n). typed_get a k = typed_get b k"
  shows "render SPECTRUM a time width height n = render SPECTRUM b time width height n"
proof -
  have "bucket_average a (spectrum_step n) i = bucket_average b (spectrum_step n) i"
    if "i < 96" for i
  proof -
    have "\<forall>k \<in> set (bucket_indices (spectrum_step n) i). typed_get a k = typed_get b k"
      using assms that by (auto simp add: mode_reads_def)
    then have "sum_reads a (bucket_indices (spectrum_step n) i)
        = sum_reads b (bucket_indices (spectrum_step n) i)"
      by (rule sum_reads_cong)
    then show ?thesis
      by (simp add: bucket_average_def)
  qed
  then show ?thesis
    by (simp add: render_def render_spectrum_def Let_def)
qed

lemma circle_depends:
  assumes "\<forall>k \<in> set (mode_reads CIRCLE n). typed_get a k = typed_get b k"
  shows "render CIRCLE a time width height n = render CIRCLE b time width height n"
proof -
  have "sum_reads a [0 ..< 10] = sum_reads b [0 ..< 10]"
    by (rule sum_reads_cong) (use assms in \<open>simp add: mode_reads_def\<close>)
  then have r: "circle_currentRadius a width height = circle_currentRadius b width height"
    by (simp add: circle_currentRadius_def)
  have "typed_get a (circle_spectrumIndex (circle_step n) i)
      = typed_get b (circle_spectrumIndex (circle_step n) i)" if "i < 80" for i
    using assms that by (simp add: mode_reads_def)
  then have v: "map (\<lambda>i. (typed_get a (circle_spectrumIndex (circle_step n) i),
                            circle_spectrumIndex (circle_step n) i)) [0 ..< 80]
      = map (\<lambda>i. (typed_get b (circle_spectrumIndex (circle_step n) i),
                    circle_spectrumIndex (circle_step n) i)) [0 ..< 80]"
    by simp
  show ?thesis
    by (simp add: render_def render_circle_def Let_def r v)
qed

lemma spiral_depends:
  assumes "\<forall>k \<in> set (mode_reads SPIRAL n). typed_get a k = typed_get b k"
  shows "render SPIRAL a time width height n = render SPIRAL b time width height n"
proof -
  have "spiral_val a (spiral_freqRange n) i = spiral_val b (spiral_freqRange n) i"
    if "i < 350" for i
    using assms that by (simp add: mode_reads_def spiral_val_def)
  then show ?thesis
    unfolding render_def render_spiral_def Let_def VisualizerMode.case
    by (intro arg_cong [where f = concat] map_cong refl) simp
qed

lemma particles_depends:
  assumes "\<forall>k \<in> set (mode_reads PARTICLES n). typed_get a k = typed_get b k"
  shows "render PARTICLES a time width height n = render PARTICLES b time width height n"
proof -
  have "typed_get a (particles_freqIndex n i) = typed_get b (particles_freqIndex n i)"
    if "i < 150" for i
    using assms that by (simp add: mode_reads_def)
  then show ?thesis
    by (simp add: render_def render_particles_def Let_def)
qed

lemma rings_depends:
  assumes "\<forall>k \<in> set (mode_reads RINGS n). typed_get a k = typed_get b k"
  shows "render RINGS a time width height n = render RINGS b time width height n"
proof -
  have "ring_energy a (rings_freqStart n i) = ring_energy b (rings_freqStart n i)"
    if "i < 12" for i
  proof -
    have agree: "\<forall>k \<in> set (rings_indices (rings_freqStart n i)). typed_get a k = typed_get b k"
      using assms that by (auto simp add: mode_reads_def)
    have "fold (\<lambda>k e. e + or_zero (typed_get a k)) ks e0
        = fold (\<lambda>k e. e + or_zero (typed_get b k)) ks e0"
      if "\<forall>k \<in> set ks. typed_get a k = typed_get b k" for ks e0
      using that by (induction ks arbitrary: e0) simp_all
    from this [OF agree] show ?thesis
      by (simp add: ring_energy_def)
  qed
  then show ?thesis
    by (simp add: render_def render_rings_def Let_def)
qed

lemma dna_depends:
  assumes "\<forall>k \<in> set (mode_reads DNA n). typed_get a k = typed_get b k"
  shows "render DNA a time width height n = render DNA b time width height n"
proof -
  have "typed_get a (dna_freqIndex n i) = typed_get b (dna_freqIndex n i)"
    if "i < 120" for i
    using assms that by (simp add: mode_reads_def)
  then have "helixData a time width height n = helixData b time width height n"
    unfolding helixData_def Let_def
    by (intro arg_cong [where f = concat] map_cong refl) simp
  then show ?thesis
    by (simp add: render_def render_dna_def)
qed

lemma wave_depends:
  assumes "length a = length b"
    and "\<forall>k \<in> set (mode_reads WAVE n). typed_get a k = typed_get b k"
  shows "render WAVE a time width height n = render WAVE b time width height n"
proof -
  have "slice a (wave_freqStart n petal) (wave_freqStart n petal + 80)
      = slice b (wave_freqStart n petal) (wave_freqStart n petal + 80)" if "petal < 16" for petal
  proof (rule slice_cong [OF assms(1)], rule ballI)
    fix k
    assume "k \<in> set [wave_freqStart n petal ..< wave_freqStart n petal + 80]"
    then have "k \<in> set (mode_reads WAVE n)"
      using that by (auto simp add: mode_reads_def)
    with assms(2) show "typed_get a k = typed_get b k"
      by blast
  qed
  then show ?thesis
    by (simp add: render_def render_wave_def Let_def cong: map_cong)
qed

text \<open>
  The scene of a mode depends on the spectrum only through the reads that
  \<open>mode_reads\<close> lists: two spectra of one length that agree there give the same scene.
\<close>

lemma render_reads_only:
  assumes "length a = length b"
    and "\<forall>k \<in> set (mode_reads mode n). typed_get a k = typed_get b k"
  shows "render mode a time width height n = render mode b time width height n"
  using assms
  by (cases mode)
    (simp_all only: bars_depends wave_depends circle_depends spiral_depends particles_depends
      spectrum_depends rings_depends dna_depends)


text \<open>
  C10.  With 512 bins (the analysis size 1024 that the effect sets), every index at which
  a render mode reads the smoothed spectrum is below 512.  Spiral reads at the index
  modulo half the bin count, 256; the read of Rings gives 0 for a missing element; the
  steps of Bars, Spectrum and Circle are 5, 4 and 3.
\<close>

theorem reads_in_bounds:
  "(\<forall>k \<in> set (mode_reads mode 512). k < 512) \<and>
   frequencyBinCount = 512 \<and>
   spiral_freqRange 512 = 256 \<and>
   spiral_val smoothData (spiral_freqRange 512) i = typed_get smoothData (i mod 256) \<and>
   (length smoothData \<le> k \<longrightarrow> or_zero (typed_get smoothData k) = 0) \<and>
   bars_step 512 = 5 \<and> spectrum_step 512 = 4 \<and> circle_step 512 = 3"
proof -
  have "k < 512" if "k \<in> set (mode_reads mode 512)" for k
    using that
    by (cases mode)
      (simp_all only: bars_reads wave_reads circle_reads spiral_reads particles_reads
        spectrum_reads rings_reads dna_reads)
  then show ?thesis
    by (simp add: steps_512 frequencyBinCount_def fftSize_def spiral_val_def or_zero_def
        typed_get_def)
qed

theorem reads_in_bounds_witness:
  "319 \<in> set (mode_reads BARS 512) \<and> (319::nat) < 512 \<and>
   list_all (\<lambda>k. k < 512) (mode_reads SPIRAL 512) \<and>
   or_zero (typed_get (replicate 512 (Some 1)) 600) = 0"
proof -
  have last_read: "319 \<in> set (mode_reads BARS 512)"
    by (auto simp add: mode_reads_def steps_512 bucket_indices_def intro!: bexI [of _ 63])
  have spiral: "list_all (\<lambda>k. k < 512) (mode_reads SPIRAL 512)"
    using reads_in_bounds [of SPIRAL, THEN conjunct1] by (simp add: list_all_iff)
  have "length (replicate 512 (Some (1::real))) \<le> 600 \<longrightarrow>
      or_zero (typed_get (replicate 512 (Some 1)) 600) = 0"
    using reads_in_bounds [of BARS "replicate 512 (Some 1)" 0 600] by (elim conjE)
  then have missing: "or_zero (typed_get (replicate 512 (Some 1)) 600) = 0"
    by simp
  have "(319::nat) < 512"
    by (rule reads_in_bounds [of BARS, THEN conjunct1, THEN bspec, OF last_read])
  with last_read spiral missing show ?thesis by (intro conjI)
qed


section \<open>Properties of the smoothing\<close>

lemma update_at_boundary:
  assumes "length xs = k" and "k < length ys"
  shows "(xs @ drop k ys) [k := v] = (xs @ [v]) @ drop (Suc k) ys"
    and "typed_get (xs @ drop k ys) k = ys ! k"
proof -
  have d: "drop k ys = ys ! k # drop (Suc k) ys"
    using assms(2) by (simp add: Cons_nth_drop_Suc)
  show "(xs @ drop k ys) [k := v] = (xs @ [v]) @ drop (Suc k) ys"
    using assms(1) by (simp add: d list_update_append)
  show "typed_get (xs @ drop k ys) k = ys ! k"
    using assms by (simp add: typed_get_def nth_append)
qed

lemma typed_get_boundary:
  assumes "length xs = k"
  shows "typed_get ((xs @ [v]) @ zs) k = v"
  using assms by (simp add: typed_get_def nth_append)

lemma smooth_prefix:
  assumes "k \<le> length prev" and "length sd = length prev"
  shows "fold (smooth_step isPlaying dataArray factor) [0 ..< k] (prev, sd) =
     (map (\<lambda>i. num_lift2 (ema factor) (prev ! i) (smooth_target isPlaying dataArray i)) [0 ..< k]
        @ drop k prev,
      map (\<lambda>i. num_lift2 (ema factor) (prev ! i) (smooth_target isPlaying dataArray i)) [0 ..< k]
        @ drop k sd)"
  using assms(1)
proof (induction k)
  case 0
  show ?case by simp
next
  case (Suc k)
  let ?new = "\<lambda>i. num_lift2 (ema factor) (prev ! i) (smooth_target isPlaying dataArray i)"
  let ?done = "map ?new [0 ..< k]"
  from Suc.prems have k: "k < length prev" "k < length sd"
    using assms(2) by simp_all
  have IH: "fold (smooth_step isPlaying dataArray factor) [0 ..< k] (prev, sd)
      = (?done @ drop k prev, ?done @ drop k sd)"
    using Suc by simp
  have len: "length ?done = k" by simp
  have step: "smooth_step isPlaying dataArray factor k (?done @ drop k prev, ?done @ drop k sd)
      = ((?done @ [?new k]) @ drop (Suc k) prev, (?done @ [?new k]) @ drop (Suc k) sd)"
    unfolding smooth_step_def Let_def fst_conv snd_conv
      update_at_boundary [OF len k(1)] update_at_boundary [OF len k(2)]
      typed_get_boundary [OF len]
    by (rule refl)
  show ?case
    by (simp add: IH step)
qed

lemma smooth_eq:
  assumes "length prev = n"
  shows "smooth isPlaying dataArray factor n prev =
     (map (\<lambda>i. num_lift2 (ema factor) (prev ! i) (smooth_target isPlaying dataArray i)) [0 ..< n],
      map (\<lambda>i. num_lift2 (ema factor) (prev ! i) (smooth_target isPlaying dataArray i)) [0 ..< n])"
  unfolding smooth_def using smooth_prefix [of n prev "replicate n (Some 0)"] assms by simp

lemma ema_in_range:
  assumes "0 \<le> p" "p \<le> 255" "0 \<le> t" "t \<le> 255" "0 \<le> factor" "factor \<le> 1"
  shows "0 \<le> ema factor p t \<and> ema factor p t \<le> 255"
proof -
  have e: "ema factor p t = p * (1 - factor) + t * factor"
    by (simp add: ema_def algebra_simps)
  have "0 \<le> p * (1 - factor) + t * factor"
    using assms by (intro add_nonneg_nonneg mult_nonneg_nonneg) simp_all
  moreover have "0 \<le> (255 - p) * (1 - factor) + (255 - t) * factor"
    using assms by (intro add_nonneg_nonneg mult_nonneg_nonneg) simp_all
  then have "p * (1 - factor) + t * factor \<le> 255"
    by (simp add: algebra_simps)
  ultimately show ?thesis by (simp add: e)
qed

lemma smoothingFactor_values: "smoothingFactor mode \<in> {0.3, 0.5, 0.8}"
  by (simp add: smoothingFactor_def)

lemma smoothingFactor_unit: "0 \<le> smoothingFactor mode \<and> smoothingFactor mode \<le> 1"
  by (simp add: smoothingFactor_def)

lemma target_in_range:
  assumes "i < length dataArray"
  shows "in_byte_range (smooth_target isPlaying dataArray i)"
proof -
  have "unat (dataArray ! i) < 2 ^ LENGTH(8)"
    by (rule unsigned_less)
  then have "unat (dataArray ! i) \<le> 255"
    by simp
  then have "real (unat (dataArray ! i)) \<le> real (255::nat)"
    by (rule of_nat_mono)
  then have "real (unat (dataArray ! i)) \<le> 255"
    by simp
  moreover have "0 \<le> real (unat (dataArray ! i))"
    by (rule of_nat_0_le_iff)
  ultimately show ?thesis
    using assms by (simp add: smooth_target_def in_byte_range_def)
qed

lemma smoothed_bin_in_range:
  assumes "in_byte_range p" and "in_byte_range t"
  shows "in_byte_range (num_lift2 (ema (smoothingFactor mode)) p t)"
proof -
  from assms obtain x y where xy: "p = Some x" "t = Some y" "0 \<le> x" "x \<le> 255" "0 \<le> y" "y \<le> 255"
    by (auto simp add: in_byte_range_def split: option.splits)
  then show ?thesis
    using ema_in_range [of x y "smoothingFactor mode"] smoothingFactor_unit [of mode]
    by (simp add: num_lift2_def in_byte_range_def)
qed

lemma renderFrame_buffer_length:
  assumes "length (prevDataRef vs) = n"
  shows "length (prevDataRef (renderFrame props width height n inp vs)) = n"
  using assms by (simp add: renderFrame_def draw_frame_def Let_def smooth_eq)

lemma effect_buffer_length:
  "if p_analyser props
   then length (prevDataRef (effect props width height inp vs)) = frequencyBinCount
   else effect props width height inp vs = vs"
  by (simp add: effect_def Let_def renderFrame_buffer_length init_prevData_def)


text \<open>
  C6.  If the smoothing buffer has the length \<open>n\<close> of the analyser data and every
  value in it is a number from 0 to 255, then after the smoothing loop of a frame, in any
  mode and playing or not, the buffer still has length \<open>n\<close>, every value in it is a
  number from 0 to 255 (no read met a missing element), and \<open>smoothData\<close> is a copy
  of it.  The smoothing factor is 0.3, 0.5 or 0.8.  The effect gives the buffer the
  length of the bin count: a buffer of another length is replaced by \<open>n\<close> zeros, one of
  the right length is kept; after the effect the buffer has 512 elements.
\<close>

theorem smoothed_stays_in_range:
  assumes "length prev = n" and "length dataArray = n" and "list_all in_byte_range prev"
  shows "list_all in_byte_range (fst (smooth isPlaying dataArray (smoothingFactor mode) n prev)) \<and>
         length (fst (smooth isPlaying dataArray (smoothingFactor mode) n prev)) = n \<and>
         snd (smooth isPlaying dataArray (smoothingFactor mode) n prev)
           = fst (smooth isPlaying dataArray (smoothingFactor mode) n prev) \<and>
         smoothingFactor mode \<in> {0.3, 0.5, 0.8} \<and>
         length (init_prevData old n) = n \<and>
         (if length old \<noteq> n then init_prevData old n = replicate n (Some 0)
          else init_prevData old n = old) \<and>
         list_all in_byte_range (replicate n (Some 0)) \<and>
         (if p_analyser props
          then length (prevDataRef (effect props width height inp vs)) = frequencyBinCount
          else effect props width height inp vs = vs) \<and>
         frequencyBinCount = 512"
proof -
  have "in_byte_range (num_lift2 (ema (smoothingFactor mode)) (prev ! i)
          (smooth_target isPlaying dataArray i))" if "i < n" for i
  proof (rule smoothed_bin_in_range)
    show "in_byte_range (prev ! i)"
      using assms(1,3) that by (simp add: list_all_length)
    show "in_byte_range (smooth_target isPlaying dataArray i)"
      using assms(2) that by (simp add: target_in_range)
  qed
  then have "list_all in_byte_range
      (fst (smooth isPlaying dataArray (smoothingFactor mode) n prev))"
    by (simp add: smooth_eq [OF assms(1)] list_all_length)
  moreover have "length (fst (smooth isPlaying dataArray (smoothingFactor mode) n prev)) = n"
    "snd (smooth isPlaying dataArray (smoothingFactor mode) n prev)
       = fst (smooth isPlaying dataArray (smoothingFactor mode) n prev)"
    by (simp_all add: smooth_eq [OF assms(1)])
  moreover have "length (init_prevData old n) = n"
    "if length old \<noteq> n then init_prevData old n = replicate n (Some 0)
     else init_prevData old n = old"
    by (simp_all add: init_prevData_def)
  moreover have "list_all in_byte_range (replicate n (Some 0))"
    by (simp add: list_all_length in_byte_range_def)
  moreover have "frequencyBinCount = 512"
    by (simp add: frequencyBinCount_def fftSize_def)
  ultimately show ?thesis
    using smoothingFactor_values [of mode] effect_buffer_length [of props width height inp vs]
    by (intro conjI)
qed

theorem smoothed_stays_in_range_witness:
  "list_all in_byte_range
     (fst (smooth True [0, 255] (smoothingFactor BARS) 2 [Some 255, Some 0])) \<and>
   length (fst (smooth True [0, 255] (smoothingFactor BARS) 2 [Some 255, Some 0])) = 2 \<and>
   init_prevData [] 2 = [Some 0, Some 0]"
proof -
  have "list_all in_byte_range [Some 255, Some 0]"
    by (simp add: in_byte_range_def)
  from smoothed_stays_in_range [where prev = "[Some 255, Some 0]" and n = 2
      and dataArray = "[0, 255]" and isPlaying = True and mode = BARS and old = "[]", OF _ _ this]
  show ?thesis
    by (simp add: numeral_2_eq_2)
qed

lemma silent_target:
  assumes "i < n"
  shows "smooth_target isPlaying (replicate n 0) i = Some 0"
  using assms by (simp add: smooth_target_def)

lemma silent_frame:
  assumes "length vs = n"
  shows "fst (smooth isPlaying (replicate n 0) factor n (map Some vs))
           = map (\<lambda>v. Some (v * (1 - factor))) vs"
proof (rule nth_equalityI)
  show "length (fst (smooth isPlaying (replicate n 0) factor n (map Some vs)))
      = length (map (\<lambda>v. Some (v * (1 - factor))) vs)"
    using assms by (simp add: smooth_eq)
next
  fix i
  assume "i < length (fst (smooth isPlaying (replicate n 0) factor n (map Some vs)))"
  then have i: "i < n"
    using assms by (simp add: smooth_eq)
  then show "fst (smooth isPlaying (replicate n 0) factor n (map Some vs)) ! i
      = map (\<lambda>v. Some (v * (1 - factor))) vs ! i"
    using assms
    by (simp add: smooth_eq silent_target num_lift2_def ema_def algebra_simps)
qed

lemma silent_frames:
  assumes "length vs = n"
  shows "smooth_frames isPlaying (replicate n 0) factor n k (map Some vs)
           = map (\<lambda>v. Some (v * (1 - factor) ^ k)) vs"
proof (induction k)
  case 0
  show ?case by (simp add: smooth_frames_def)
next
  case (Suc k)
  have "smooth_frames isPlaying (replicate n 0) factor n (Suc k) (map Some vs)
      = fst (smooth isPlaying (replicate n 0) factor n
          (smooth_frames isPlaying (replicate n 0) factor n k (map Some vs)))"
    by (simp add: smooth_frames_def)
  also have "\<dots> = fst (smooth isPlaying (replicate n 0) factor n
      (map Some (map (\<lambda>v. v * (1 - factor) ^ k) vs)))"
    by (simp add: Suc.IH comp_def)
  also have "\<dots> = map (\<lambda>v. Some (v * (1 - factor))) (map (\<lambda>v. v * (1 - factor) ^ k) vs)"
    by (rule silent_frame) (simp add: assms)
  also have "\<dots> = map (\<lambda>v. Some (v * (1 - factor) ^ Suc k)) vs"
    by (simp add: comp_def mult.assoc mult.commute)
  finally show ?case .
qed

lemma decay_to_zero: "(\<lambda>k. v * (1 - smoothingFactor mode) ^ k) \<longlonglongrightarrow> 0"
proof -
  have "0 \<le> 1 - smoothingFactor mode" "1 - smoothingFactor mode < 1"
    by (simp_all add: smoothingFactor_def)
  then have "(\<lambda>k. (1 - smoothingFactor mode) ^ k) \<longlonglongrightarrow> 0"
    by (rule LIMSEQ_realpow_zero)
  then have "(\<lambda>k. v * (1 - smoothingFactor mode) ^ k) \<longlonglongrightarrow> v * 0"
    by (rule tendsto_mult_left)
  then show ?thesis by simp
qed

lemma below_one_at_17: "(255::real) * (1 - smoothingFactor BARS) ^ 17 < 1"
  by (simp add: smoothingFactor_def power_divide)

lemma below_one_at_16:
  "(255::real) * (1 - smoothingFactor BARS) ^ 16 < 1"
  "1 \<le> (255::real) * (1 - smoothingFactor BARS) ^ 15"
  by (simp_all add: smoothingFactor_def power_divide)

text \<open>
  C5.  While the analyser data is all zero, each frame multiplies every smoothed bin by
  \<open>1 - alpha\<close>, so after \<open>k\<close> frames a bin that started at \<open>v\<close> holds
  \<open>v * (1 - alpha) ^ k\<close>, which tends to 0 as \<open>k\<close> grows, for the factor of every
  mode.  With the default factor 0.3 a bin that starts at 255 is below 1 after 17 frames
  (and already after 16, not yet after 15).
\<close>

theorem silence_decays:
  assumes "length vs = n"
  shows "smooth_frames isPlaying (replicate n 0) (smoothingFactor mode) n k (map Some vs)
           = map (\<lambda>v. Some (v * (1 - smoothingFactor mode) ^ k)) vs \<and>
         (\<lambda>k. v * (1 - smoothingFactor mode) ^ k) \<longlonglongrightarrow> 0 \<and>
         smoothingFactor BARS = 0.3 \<and>
         smooth_frames isPlaying [0] (smoothingFactor BARS) 1 17 [Some 255]
           = [Some (255 * (1 - smoothingFactor BARS) ^ 17)] \<and>
         (255::real) * (1 - smoothingFactor BARS) ^ 17 < 1 \<and>
         (255::real) * (1 - smoothingFactor BARS) ^ 16 < 1 \<and>
         1 \<le> (255::real) * (1 - smoothingFactor BARS) ^ 15"
proof -
  have "smooth_frames isPlaying (replicate 1 0) (smoothingFactor BARS) 1 17 (map Some [255])
      = map (\<lambda>v. Some (v * (1 - smoothingFactor BARS) ^ 17)) [255]"
    by (rule silent_frames) simp
  then have "smooth_frames isPlaying [0] (smoothingFactor BARS) 1 17 [Some 255]
      = [Some (255 * (1 - smoothingFactor BARS) ^ 17)]"
    by simp
  moreover have "smoothingFactor BARS = 0.3"
    by (simp add: smoothingFactor_def)
  ultimately show ?thesis
    using silent_frames [OF assms, of isPlaying "smoothingFactor mode" k]
      decay_to_zero [of v mode] below_one_at_17 below_one_at_16
    by (intro conjI)
qed

theorem silence_decays_witness:
  "smooth_frames True [0, 0] (smoothingFactor BARS) 2 1 [Some 255, Some 10]
     = [Some 178.5, Some 7]"
  using silence_decays [where vs = "[255, 10]" and n = 2 and isPlaying = True and mode = BARS
      and k = 1, THEN conjunct1]
  by (simp add: numeral_2_eq_2 smoothingFactor_def)


end
